theory Spec2Isabelle
  imports Main "HOL-Library.Multiset"
begin

section \<open>Values, rows and column descriptors\<close>

text \<open>
  The table in \<^verbatim>\<open>src/components/ui/data-table.tsx\<close> is generic in its row type
  \<^verbatim>\<open>T extends Record<string, any>\<close>. A field value is a JavaScript value. Numbers are
  modelled as integers together with \<^verbatim>\<open>NaN\<close>, the only number that is not strictly equal
  to itself; fractional numbers and object references are not modelled.
\<close>

datatype jsval = JUndefined | JNull | JBool bool | JNum int | JNaN | JStr string

text \<open>The operator \<^verbatim>\<open>===\<close> on these values.\<close>

definition strictEq :: "jsval \<Rightarrow> jsval \<Rightarrow> bool" where
  "strictEq a b = (a = b \<and> a \<noteq> JNaN)"

text \<open>The test \<^verbatim>\<open>v == null\<close>, which holds of \<^verbatim>\<open>null\<close> and of \<^verbatim>\<open>undefined\<close>;
  the operator \<^verbatim>\<open>??\<close> replaces exactly these values.\<close>

definition isNullish :: "jsval \<Rightarrow> bool" where
  "isNullish v = (v = JNull \<or> v = JUndefined)"

text \<open>A row is a record of named fields; reading a field that is missing gives
  \<^verbatim>\<open>undefined\<close>.\<close>

type_synonym row = "(string \<times> jsval) list"

definition getField :: "row \<Rightarrow> string \<Rightarrow> jsval" where
  "getField r k = (case map_of r k of None \<Rightarrow> JUndefined | Some v \<Rightarrow> v)"

text \<open>
  What the component returns is a tree of elements. Class names and style attributes are
  left out, and so are the labels of the checkboxes; an element keeps its tag and children,
  a checkbox its \<^verbatim>\<open>checked\<close> flag and its \<^verbatim>\<open>indeterminate\<close> flag.
\<close>

datatype node =
    Elem string "node list"
  | Text string
  | Val jsval
  | Checkbox bool bool
  | Icon string

datatype Align = AlignLeft | AlignCenter | AlignRight

record Column =
  key :: string
  title :: string
  dataIndex :: string
  sortable :: "bool option"
  render :: "(jsval \<Rightarrow> row \<Rightarrow> nat \<Rightarrow> node) option"
  width :: "string option"
  align :: "Align option"

datatype RowKey = KeyField string | KeyFun "row \<Rightarrow> jsval"

text \<open>
  The properties of the component. An optional property is an option; its default is
  applied where the source destructures it. \<open>onRowSelect\<close> records whether the
  caller supplied the callback: the handlers below return the argument it is invoked
  with.
\<close>

record DataTableProps =
  data :: "row list"
  columns :: "Column list"
  loading :: "bool option"
  selectable :: "bool option"
  onRowSelect :: bool
  emptyMessage :: "string option"
  rowKey :: "RowKey option"

definition loadingOf :: "DataTableProps \<Rightarrow> bool" where
  "loadingOf p = (case loading p of None \<Rightarrow> False | Some b \<Rightarrow> b)"

definition selectableOf :: "DataTableProps \<Rightarrow> bool" where
  "selectableOf p = (case selectable p of None \<Rightarrow> False | Some b \<Rightarrow> b)"

definition emptyMessageOf :: "DataTableProps \<Rightarrow> string" where
  "emptyMessageOf p = (case emptyMessage p of None \<Rightarrow> ''No data available'' | Some m \<Rightarrow> m)"

definition rowKeyOf :: "DataTableProps \<Rightarrow> RowKey" where
  "rowKeyOf p = (case rowKey p of None \<Rightarrow> KeyField ''id'' | Some k \<Rightarrow> k)"

datatype SortOrder = Asc | Desc

record SortState =
  column :: "string option"
  order :: "SortOrder option"

record TableState =
  sortState :: SortState
  selectedRowKeys :: "jsval set"

definition initialState :: TableState where
  "initialState = \<lparr>sortState = \<lparr>column = None, order = None\<rparr>, selectedRowKeys = {}\<rparr>"

section \<open>Row keys\<close>

definition getRowKey :: "DataTableProps \<Rightarrow> row \<Rightarrow> nat \<Rightarrow> jsval" where
  "getRowKey p record' index =
     (case rowKeyOf p of
        KeyFun f \<Rightarrow> f record'
      | KeyField k \<Rightarrow>
          (let v = getField record' k in if isNullish v then JNum (int index) else v))"

section \<open>The sorted view\<close>


text \<open>
  Three parts of the JavaScript runtime are parameters of the model:
  \<^verbatim>\<open>String.prototype.localeCompare\<close>, the operator \<^verbatim>\<open><\<close> on values, and
  \<^verbatim>\<open>Array.prototype.sort\<close> on an array of rows. No algorithm is fixed for the sort:
  what a theorem needs of it is an assumption of that theorem (\<open>sortContract\<close> below).
\<close>

record Runtime =
  localeCompare :: "string \<Rightarrow> string \<Rightarrow> int"
  jsLess :: "jsval \<Rightarrow> jsval \<Rightarrow> bool"
  jsSort :: "(row \<Rightarrow> row \<Rightarrow> int) \<Rightarrow> row list \<Rightarrow> row list"

text \<open>The comparator handed to \<^verbatim>\<open>sort\<close> (lines 65 to 81).\<close>

definition compareRows :: "Runtime \<Rightarrow> string \<Rightarrow> SortOrder \<Rightarrow> row \<Rightarrow> row \<Rightarrow> int" where
  "compareRows rt di ord a b =
     (let aValue = getField a di; bValue = getField b di in
      if strictEq aValue bValue then 0
      else
        let comparison =
          (if isNullish aValue then - 1
           else if isNullish bValue then 1
           else (case (aValue, bValue) of
                   (JStr s, JStr t) \<Rightarrow> localeCompare rt s t
                 | _ \<Rightarrow> if jsLess rt aValue bValue then - 1 else 1))
        in if ord = Desc then - comparison else comparison)"

text \<open>
  What is assumed of \<^verbatim>\<open>Array.prototype.sort\<close>. The comparator above is not a consistent
  comparator on all rows: \<^verbatim>\<open>null\<close> against a missing field is negative in both argument
  orders, and \<^verbatim>\<open>NaN\<close> against a number or a string against a number can be positive in
  both. For such a comparator the language leaves the order to the implementation, and
  engines do differ from one another there. A sort that orders by calling the comparator
  still returns the rows it was given, and it puts \<open>x\<close> immediately before \<open>y\<close> only
  on the evidence of comparator results: a call on the two rows, in either argument order,
  that allows \<open>x\<close> before \<open>y\<close>, or a chain of such calls through other rows.
\<close>

definition mayPrecede :: "('a \<Rightarrow> 'a \<Rightarrow> int) \<Rightarrow> 'a \<Rightarrow> 'a \<Rightarrow> bool" where
  "mayPrecede cmp x y = (cmp x y \<le> 0 \<or> cmp y x \<ge> 0)"

definition sortContract :: "('a \<Rightarrow> 'a \<Rightarrow> int) \<Rightarrow> 'a list \<Rightarrow> 'a list \<Rightarrow> bool" where
  "sortContract cmp xs out =
     (mset out = mset xs \<and> successively (rtranclp (mayPrecede cmp)) out)"

text \<open>
  \<^verbatim>\<open>sortedData\<close> (lines 57 to 82). The test \<^verbatim>\<open>!sortState.column\<close> also holds of the
  empty string.
\<close>

definition sortedData :: "Runtime \<Rightarrow> DataTableProps \<Rightarrow> SortState \<Rightarrow> row list" where
  "sortedData rt p ss =
     (case (column ss, order ss) of
        (Some c, Some ord) \<Rightarrow>
          if c = [] then data p
          else (case find (\<lambda>col. key col = c) (columns p) of
                  None \<Rightarrow> data p
                | Some col \<Rightarrow> jsSort rt (compareRows rt (dataIndex col) ord) (data p))
      | _ \<Rightarrow> data p)"

section \<open>Handlers\<close>

text \<open>\<^verbatim>\<open>handleSort\<close> (lines 85 to 104).\<close>

definition nextSortState :: "Column \<Rightarrow> SortState \<Rightarrow> SortState" where
  "nextSortState col prev =
     (if column prev \<noteq> Some (key col) then \<lparr>column = Some (key col), order = Some Asc\<rparr>
      else (case order prev of
              None \<Rightarrow> \<lparr>column = Some (key col), order = Some Asc\<rparr>
            | Some Asc \<Rightarrow> \<lparr>column = Some (key col), order = Some Desc\<rparr>
            | Some Desc \<Rightarrow> \<lparr>column = None, order = None\<rparr>))"

definition handleSort :: "Column \<Rightarrow> TableState \<Rightarrow> TableState" where
  "handleSort col s =
     (if sortable col \<noteq> Some True then s
      else s\<lparr>sortState := nextSortState col (sortState s)\<rparr>)"

text \<open>
  \<^verbatim>\<open>handleRowSelect\<close> (lines 107 to 124). The result is the next state and, when the
  callback was supplied, the list it is invoked with.
\<close>

definition selectedRows :: "DataTableProps \<Rightarrow> jsval set \<Rightarrow> row list" where
  "selectedRows p keys =
     map snd (filter (\<lambda>(index, record'). getRowKey p record' index \<in> keys)
                (enumerate 0 (data p)))"

definition handleRowSelect ::
  "DataTableProps \<Rightarrow> jsval \<Rightarrow> bool \<Rightarrow> TableState \<Rightarrow> TableState \<times> row list option" where
  "handleRowSelect p k selected s =
     (let newSelectedKeys =
            (if selected then insert k (selectedRowKeys s) else selectedRowKeys s - {k})
      in (s\<lparr>selectedRowKeys := newSelectedKeys\<rparr>,
          if onRowSelect p then Some (selectedRows p newSelectedKeys) else None))"

text \<open>\<^verbatim>\<open>handleSelectAll\<close> (lines 127 to 136).\<close>

definition allKeys :: "DataTableProps \<Rightarrow> jsval set" where
  "allKeys p = set (map (\<lambda>(index, record'). getRowKey p record' index) (enumerate 0 (data p)))"

definition handleSelectAll ::
  "DataTableProps \<Rightarrow> bool \<Rightarrow> TableState \<Rightarrow> TableState \<times> row list option" where
  "handleSelectAll p selected s =
     (if selected
      then (s\<lparr>selectedRowKeys := allKeys p\<rparr>, if onRowSelect p then Some (data p) else None)
      else (s\<lparr>selectedRowKeys := {}\<rparr>, if onRowSelect p then Some [] else None))"

text \<open>The two derived flags (lines 139 and 140); \<^verbatim>\<open>size\<close> is the number of keys.\<close>

definition isAllSelected :: "DataTableProps \<Rightarrow> TableState \<Rightarrow> bool" where
  "isAllSelected p s = (length (data p) > 0 \<and> card (selectedRowKeys s) = length (data p))"

definition isIndeterminate :: "DataTableProps \<Rightarrow> TableState \<Rightarrow> bool" where
  "isIndeterminate p s =
     (card (selectedRowKeys s) > 0 \<and> card (selectedRowKeys s) < length (data p))"

section \<open>Rendering\<close>

text \<open>\<^verbatim>\<open>renderSortIcon\<close> (lines 143 to 166); \<^verbatim>\<open>null\<close> renders nothing.\<close>

definition renderSortIcon :: "Column \<Rightarrow> SortState \<Rightarrow> node list" where
  "renderSortIcon col ss =
     (if sortable col \<noteq> Some True then []
      else if column ss \<noteq> Some (key col)
      then [Elem ''div'' [Icon ''ChevronUp'', Icon ''ChevronDown'']]
      else [Elem ''div'' [if order ss = Some Asc then Icon ''ChevronUp''
                          else Icon ''ChevronDown'']])"

definition renderHeader :: "DataTableProps \<Rightarrow> TableState \<Rightarrow> node" where
  "renderHeader p s =
     Elem ''thead''
       [Elem ''tr''
          ((if selectableOf p
            then [Elem ''th'' [Checkbox (isAllSelected p s) (isIndeterminate p s)]]
            else []) @
           map (\<lambda>col. Elem ''th''
                  [Elem ''div'' (Elem ''span'' [Text (title col)] #
                                 renderSortIcon col (sortState s))])
             (columns p))]"

definition renderCell :: "Column \<Rightarrow> row \<Rightarrow> nat \<Rightarrow> node" where
  "renderCell col record' index =
     (let value = getField record' (dataIndex col);
          displayValue = (case render col of
                            Some f \<Rightarrow> f value record' index
                          | None \<Rightarrow> Val value)
      in Elem ''td'' [displayValue])"

text \<open>
  The body of the \<^verbatim>\<open>sortedData.map\<close> callback (lines 232 to 275): the key of a
  displayed row is computed from the row and its index in the sorted view.
\<close>

definition renderRow :: "DataTableProps \<Rightarrow> TableState \<Rightarrow> nat \<times> row \<Rightarrow> node" where
  "renderRow p s =
     (\<lambda>(index, record').
        let k = getRowKey p record' index;
            isSelected = (k \<in> selectedRowKeys s)
        in Elem ''tr''
             ((if selectableOf p
               then [Elem ''td'' [Checkbox isSelected False]]
               else []) @
              map (\<lambda>col. renderCell col record' index) (columns p)))"

definition emptyPanel :: "DataTableProps \<Rightarrow> node" where
  "emptyPanel p =
     Elem ''div''
       [Elem ''div''
          [Icon ''Database'', Elem ''h3'' [Text ''No Data''],
           Elem ''p'' [Text (emptyMessageOf p)]]]"

definition loadingRow :: node where
  "loadingRow =
     Elem ''tr''
       [Elem ''td'' [Elem ''div'' [Icon ''Loader2'', Elem ''span'' [Text ''Loading data...'']]]]"

definition grid :: "DataTableProps \<Rightarrow> TableState \<Rightarrow> node list \<Rightarrow> node" where
  "grid p s body =
     Elem ''div'' [Elem ''div'' [Elem ''table'' [renderHeader p s, Elem ''tbody'' body]]]"

text \<open>The value the component returns (lines 168 to 281).\<close>

definition DataTable :: "Runtime \<Rightarrow> DataTableProps \<Rightarrow> TableState \<Rightarrow> node" where
  "DataTable rt p s =
     (if \<not> loadingOf p \<and> length (data p) = 0 then emptyPanel p
      else grid p s
             (if loadingOf p then [loadingRow]
              else map (renderRow p s) (enumerate 0 (sortedData rt p (sortState s)))))"

text \<open>
  The keys of the displayed rows, and the \<^verbatim>\<open>onCheckedChange\<close> handler of the checkbox
  of the displayed row \<open>index\<close> (line 249), which passes that row's displayed key on.
  There is no checkbox for an index past the last row.
\<close>

definition renderedKeys :: "Runtime \<Rightarrow> DataTableProps \<Rightarrow> TableState \<Rightarrow> jsval list" where
  "renderedKeys rt p s =
     map (\<lambda>(index, record'). getRowKey p record' index)
       (enumerate 0 (sortedData rt p (sortState s)))"

definition rowCheckboxChange ::
  "Runtime \<Rightarrow> DataTableProps \<Rightarrow> nat \<Rightarrow> bool \<Rightarrow> TableState \<Rightarrow> TableState \<times> row list option" where
  "rowCheckboxChange rt p index checked s =
     (if index < length (renderedKeys rt p s)
      then handleRowSelect p (renderedKeys rt p s ! index) checked s
      else (s, None))"

text \<open>What can be read off a rendered tree.\<close>

fun texts :: "node \<Rightarrow> string list" where
  "texts (Elem t cs) = concat (map texts cs)"
| "texts (Text str) = [str]"
| "texts (Val v) = []"
| "texts (Checkbox c i) = []"
| "texts (Icon n) = []"

fun tags :: "node \<Rightarrow> string list" where
  "tags (Elem t cs) = t # concat (map tags cs)"
| "tags (Text str) = []"
| "tags (Val v) = []"
| "tags (Checkbox c i) = []"
| "tags (Icon n) = []"

fun checkboxes :: "node \<Rightarrow> (bool \<times> bool) list" where
  "checkboxes (Elem t cs) = concat (map checkboxes cs)"
| "checkboxes (Text str) = []"
| "checkboxes (Val v) = []"
| "checkboxes (Checkbox c i) = [(c, i)]"
| "checkboxes (Icon n) = []"

fun tbody :: "node \<Rightarrow> node list list" where
  "tbody (Elem t cs) = (if t = ''tbody'' then [cs] else concat (map tbody cs))"
| "tbody (Text str) = []"
| "tbody (Val v) = []"
| "tbody (Checkbox c i) = []"
| "tbody (Icon n) = []"

section \<open>Arrays in a store\<close>

text \<open>
  The caller's row array is shared with the component, and \<^verbatim>\<open>sort\<close> writes the array
  it is called on. Here arrays live in a store, at references; \<^verbatim>\<open>[...data]\<close> and
  \<^verbatim>\<open>filter\<close> allocate a new array, \<^verbatim>\<open>sort\<close> overwrites the one it is given.
\<close>

record Store =
  cells :: "nat \<Rightarrow> row list option"
  nextRef :: nat

definition readArray :: "nat \<Rightarrow> Store \<Rightarrow> row list" where
  "readArray r st = (case cells st r of None \<Rightarrow> [] | Some xs \<Rightarrow> xs)"

definition allocArray :: "row list \<Rightarrow> Store \<Rightarrow> nat \<times> Store" where
  "allocArray xs st =
     (nextRef st, st\<lparr>cells := (cells st)(nextRef st \<mapsto> xs), nextRef := Suc (nextRef st)\<rparr>)"

definition spread :: "nat \<Rightarrow> Store \<Rightarrow> nat \<times> Store" where
  "spread r st = allocArray (readArray r st) st"

definition sortInPlace ::
  "Runtime \<Rightarrow> (row \<Rightarrow> row \<Rightarrow> int) \<Rightarrow> nat \<Rightarrow> Store \<Rightarrow> Store" where
  "sortInPlace rt cmp r st =
     st\<lparr>cells := (cells st)(r \<mapsto> jsSort rt cmp (readArray r st))\<rparr>"

text \<open>The properties as the component sees them when \<open>data\<close> is the array at \<open>dataRef\<close>.\<close>

definition propsAt :: "DataTableProps \<Rightarrow> nat \<Rightarrow> Store \<Rightarrow> DataTableProps" where
  "propsAt p dataRef st = p\<lparr>data := readArray dataRef st\<rparr>"

definition sortedDataS ::
  "Runtime \<Rightarrow> DataTableProps \<Rightarrow> SortState \<Rightarrow> nat \<Rightarrow> Store \<Rightarrow> nat \<times> Store" where
  "sortedDataS rt p ss dataRef st =
     (case (column ss, order ss) of
        (Some c, Some ord) \<Rightarrow>
          if c = [] then (dataRef, st)
          else (case find (\<lambda>col. key col = c) (columns p) of
                  None \<Rightarrow> (dataRef, st)
                | Some col \<Rightarrow>
                    (let (copy, st1) = spread dataRef st
                     in (copy, sortInPlace rt (compareRows rt (dataIndex col) ord) copy st1)))
      | _ \<Rightarrow> (dataRef, st))"

text \<open>
  The handlers on the store. \<^verbatim>\<open>filter\<close> returns a new array; \<^verbatim>\<open>handleSelectAll\<close> hands
  the caller's own array to the callback, or a new empty one.
\<close>

definition handleRowSelectS ::
  "DataTableProps \<Rightarrow> jsval \<Rightarrow> bool \<Rightarrow> TableState \<Rightarrow> nat \<Rightarrow> Store
     \<Rightarrow> TableState \<times> nat option \<times> Store" where
  "handleRowSelectS p k selected s dataRef st =
     (case handleRowSelect (propsAt p dataRef st) k selected s of
        (s', None) \<Rightarrow> (s', None, st)
      | (s', Some rows) \<Rightarrow> (let (r, st1) = allocArray rows st in (s', Some r, st1)))"

definition handleSelectAllS ::
  "DataTableProps \<Rightarrow> bool \<Rightarrow> TableState \<Rightarrow> nat \<Rightarrow> Store
     \<Rightarrow> TableState \<times> nat option \<times> Store" where
  "handleSelectAllS p selected s dataRef st =
     (if selected
      then (s\<lparr>selectedRowKeys := allKeys (propsAt p dataRef st)\<rparr>,
            if onRowSelect p then Some dataRef else None, st)
      else if onRowSelect p
      then (let (r, st1) = allocArray [] st in (s\<lparr>selectedRowKeys := {}\<rparr>, Some r, st1))
      else (s\<lparr>selectedRowKeys := {}\<rparr>, None, st))"

text \<open>
  What happens to a mounted table: a header is clicked, a row checkbox or the header
  checkbox changes, or the component renders (which computes the sorted view).
\<close>

datatype event =
    ClickHeader Column
  | ChangeRow jsval bool
  | ChangeAll bool
  | Render

fun stepS :: "Runtime \<Rightarrow> DataTableProps \<Rightarrow> nat \<Rightarrow> event \<Rightarrow> TableState \<times> Store
                \<Rightarrow> TableState \<times> Store" where
  "stepS rt p dataRef (ClickHeader col) (s, st) = (handleSort col s, st)"
| "stepS rt p dataRef (ChangeRow k selected) (s, st) =
     (case handleRowSelectS p k selected s dataRef st of (s', cb, st') \<Rightarrow> (s', st'))"
| "stepS rt p dataRef (ChangeAll selected) (s, st) =
     (case handleSelectAllS p selected s dataRef st of (s', cb, st') \<Rightarrow> (s', st'))"
| "stepS rt p dataRef Render (s, st) =
     (s, snd (sortedDataS rt p (sortState s) dataRef st))"

fun runS :: "Runtime \<Rightarrow> DataTableProps \<Rightarrow> nat \<Rightarrow> event list \<Rightarrow> TableState \<times> Store
               \<Rightarrow> TableState \<times> Store" where
  "runS rt p dataRef [] c = c"
| "runS rt p dataRef (e # es) c = runS rt p dataRef es (stepS rt p dataRef e c)"

text \<open>
  The keys of the rows in input order, as \<^verbatim>\<open>handleSelectAll\<close> and the filter of
  \<^verbatim>\<open>handleRowSelect\<close> compute them.
\<close>

definition rowKeys :: "DataTableProps \<Rightarrow> jsval list" where
  "rowKeys p = map (\<lambda>(index, record'). getRowKey p record' index) (enumerate 0 (data p))"

text \<open>
  Written from the specification's words "the full list of currently-selected row
  records in current display order", to be compared with \<open>selectedRows\<close>: the rows of
  the sorted view whose key is selected, in the order of the sorted view.
\<close>

definition selectedRowsInDisplayOrder ::
  "Runtime \<Rightarrow> DataTableProps \<Rightarrow> SortState \<Rightarrow> jsval set \<Rightarrow> row list" where
  "selectedRowsInDisplayOrder rt p ss keys =
     map snd (filter (\<lambda>(index, record'). getRowKey p record' index \<in> keys)
                (enumerate 0 (sortedData rt p ss)))"

section \<open>Sample inputs\<close>

text \<open>
  A runtime to evaluate examples with: strings are ordered by character code, which is
  what \<^verbatim>\<open>localeCompare\<close> gives on lower-case ASCII words, \<^verbatim>\<open><\<close> is the order of
  the integers on two numbers, and the sort is a stable insertion sort. On rows that the
  comparator orders consistently every stable sort returns the same array; the examples
  below sort only such rows.
\<close>

fun insertInto :: "('a \<Rightarrow> 'a \<Rightarrow> int) \<Rightarrow> 'a \<Rightarrow> 'a list \<Rightarrow> 'a list" where
  "insertInto cmp x [] = [x]"
| "insertInto cmp x (y # ys) =
     (if cmp x y \<le> 0 then x # y # ys else y # insertInto cmp x ys)"

fun insertionSort :: "('a \<Rightarrow> 'a \<Rightarrow> int) \<Rightarrow> 'a list \<Rightarrow> 'a list" where
  "insertionSort cmp [] = []"
| "insertionSort cmp (x # xs) = insertInto cmp x (insertionSort cmp xs)"

fun codeCompare :: "string \<Rightarrow> string \<Rightarrow> int" where
  "codeCompare [] [] = 0"
| "codeCompare [] (y # ys) = - 1"
| "codeCompare (x # xs) [] = 1"
| "codeCompare (x # xs) (y # ys) =
     (if (of_char x :: nat) < of_char y then - 1
      else if (of_char y :: nat) < of_char x then 1
      else codeCompare xs ys)"

fun numLess :: "jsval \<Rightarrow> jsval \<Rightarrow> bool" where
  "numLess (JNum a) (JNum b) = (a < b)"
| "numLess a b = False"

definition exRuntime :: Runtime where
  "exRuntime = \<lparr>localeCompare = codeCompare, jsLess = numLess, jsSort = insertionSort\<rparr>"

definition nameCol :: Column where
  "nameCol = \<lparr>key = ''name'', title = ''Name'', dataIndex = ''name'', sortable = Some True,
     render = None, width = None, align = None\<rparr>"

definition roleCol :: Column where
  "roleCol = \<lparr>key = ''role'', title = ''Role'', dataIndex = ''role'', sortable = None,
     render = None, width = None, align = None\<rparr>"

definition rowBob :: row where
  "rowBob = [(''id'', JNum 1), (''name'', JStr ''bob'')]"

definition rowAlice :: row where
  "rowAlice = [(''id'', JNum 2), (''name'', JStr ''alice'')]"

definition rowNoName :: row where
  "rowNoName = [(''id'', JNum 3), (''name'', JNull)]"

definition nullRow :: row where
  "nullRow = [(''id'', JNum 1), (''name'', JNull)]"

definition missingRow :: row where
  "missingRow = [(''id'', JNum 2)]"

definition anonBob :: row where
  "anonBob = [(''name'', JStr ''bob'')]"

definition anonAlice :: row where
  "anonAlice = [(''name'', JStr ''alice'')]"

definition dupRow :: row where
  "dupRow = [(''id'', JNum 1)]"

definition exProps :: "row list \<Rightarrow> DataTableProps" where
  "exProps rows = \<lparr>data = rows, columns = [nameCol, roleCol], loading = None,
     selectable = Some True, onRowSelect = True, emptyMessage = Some ''No users'',
     rowKey = None\<rparr>"

definition byName :: "SortOrder \<Rightarrow> jsval set \<Rightarrow> TableState" where
  "byName ord keys = \<lparr>sortState = \<lparr>column = Some ''name'', order = Some ord\<rparr>,
     selectedRowKeys = keys\<rparr>"

definition exStore :: Store where
  "exStore = \<lparr>cells = [0 \<mapsto> [rowBob, rowNoName, rowAlice]], nextRef = 1\<rparr>"

lemmas ex_defs = exRuntime_def nameCol_def roleCol_def rowBob_def rowAlice_def rowNoName_def
  anonBob_def anonAlice_def dupRow_def exProps_def byName_def

lemmas model_defs = sortedData_def compareRows_def getField_def strictEq_def isNullish_def
  getRowKey_def rowKeyOf_def handleRowSelect_def selectedRows_def renderedKeys_def
  rowCheckboxChange_def handleSelectAll_def allKeys_def isAllSelected_def isIndeterminate_def
  rowKeys_def selectedRowsInDisplayOrder_def

section \<open>The sort of the runtime\<close>








section \<open>The comparator\<close>









text \<open>
  With \<^verbatim>\<open>null\<close> beside a missing field the comparator is negative in both argument
  orders, and the contract allows either order of the two rows.
\<close>

lemma sortContract_null_beside_missing:
  "sortContract (compareRows rt ''name'' ord) [nullRow, missingRow] [missingRow, nullRow] \<and>
   sortContract (compareRows rt ''name'' ord) [nullRow, missingRow] [nullRow, missingRow]"
proof -
  have "mayPrecede (compareRows rt ''name'' ord) missingRow nullRow"
    and "mayPrecede (compareRows rt ''name'' ord) nullRow missingRow"
    by (cases ord; simp add: mayPrecede_def compareRows_def getField_def strictEq_def
        isNullish_def nullRow_def missingRow_def)+
  then show ?thesis
    by (auto simp: sortContract_def)
qed


section \<open>Selection\<close>

text \<open>The filter of \<open>handleRowSelect\<close> picks the rows at the positions whose key is
  selected, in the order of the row collection.\<close>

lemma selectedRows_nths:
  "selectedRows p keys = nths (data p) {i. getRowKey p (data p ! i) i \<in> keys}"
proof -
  define xs where "xs = data p"
  define Z where "Z = zip [0..<length xs] xs"
  have at: "r = xs ! i" if "(i, r) \<in> set Z" for i r
    using that unfolding Z_def by (auto simp: set_zip)
  have "nths xs {i. getRowKey p (xs ! i) i \<in> keys}
        = map fst (filter (\<lambda>q. getRowKey p (xs ! snd q) (snd q) \<in> keys)
            (map (\<lambda>(i, r). (r, i)) Z))"
    unfolding nths_def Z_def by (subst zip_commute) simp
  also have "\<dots> = map snd (filter (\<lambda>(i, r). getRowKey p (xs ! i) i \<in> keys) Z)"
    by (simp add: filter_map comp_def case_prod_beta split_def)
  also have "\<dots> = map snd (filter (\<lambda>(i, r). getRowKey p r i \<in> keys) Z)"
    by (rule arg_cong [where f = "map snd"], rule filter_cong) (auto dest: at)
  finally show ?thesis
    by (simp add: selectedRows_def xs_def Z_def enumerate_eq_zip)
qed

section \<open>Rendered trees\<close>

lemma tbody_renderHeader: "tbody (renderHeader p s) = []"
  by (simp add: renderHeader_def renderSortIcon_def selectableOf_def comp_def
      split: option.splits)

lemma tbody_grid: "tbody (grid p s body) = [body]"
  by (simp add: grid_def tbody_renderHeader)

lemma emptyPanel_observed:
  "texts (emptyPanel p) = [''No Data'', emptyMessageOf p] \<and>
   tags (emptyPanel p) = [''div'', ''div'', ''h3'', ''p''] \<and>
   checkboxes (emptyPanel p) = [] \<and> tbody (emptyPanel p) = []"
  by (simp add: emptyPanel_def)

section \<open>The store\<close>

text \<open>No operation writes an array that exists already: each one writes only arrays it
  has allocated itself.\<close>

lemma sortedDataS_frame:
  "nextRef st \<le> nextRef (snd (sortedDataS rt p ss dataRef st)) \<and>
   (\<forall>r < nextRef st. cells (snd (sortedDataS rt p ss dataRef st)) r = cells st r)"
  by (auto simp: sortedDataS_def spread_def allocArray_def sortInPlace_def Let_def
      split: option.splits)

lemma sortedDataS_result:
  "dataRef < nextRef st \<Longrightarrow>
   readArray (fst (sortedDataS rt p ss dataRef st)) (snd (sortedDataS rt p ss dataRef st))
     = sortedData rt (propsAt p dataRef st) ss"
  by (auto simp: sortedDataS_def sortedData_def propsAt_def spread_def allocArray_def
      sortInPlace_def readArray_def Let_def split: option.splits)

lemma stepS_frame:
  "nextRef (snd c) \<le> nextRef (snd (stepS rt p dataRef e c)) \<and>
   (\<forall>r < nextRef (snd c). cells (snd (stepS rt p dataRef e c)) r = cells (snd c) r)"
proof (cases c)
  case (Pair s st)
  show ?thesis
  proof (cases e)
    case (ClickHeader col)
    with Pair show ?thesis by simp
  next
    case (ChangeRow k selected)
    with Pair show ?thesis
      by (auto simp: handleRowSelectS_def handleRowSelect_def allocArray_def Let_def)
  next
    case (ChangeAll selected)
    with Pair show ?thesis
      by (auto simp: handleSelectAllS_def allocArray_def Let_def)
  next
    case Render
    with Pair show ?thesis
      using sortedDataS_frame [of st rt p "sortState s" dataRef] by simp
  qed
qed

lemma runS_frame:
  "nextRef (snd c) \<le> nextRef (snd (runS rt p dataRef es c)) \<and>
   (\<forall>r < nextRef (snd c). cells (snd (runS rt p dataRef es c)) r = cells (snd c) r)"
proof (induction es arbitrary: c)
  case Nil
  show ?case by simp
next
  case (Cons e es)
  have a: "nextRef (snd c) \<le> nextRef (snd (stepS rt p dataRef e c))"
    and b: "\<forall>r < nextRef (snd c). cells (snd (stepS rt p dataRef e c)) r = cells (snd c) r"
    using stepS_frame [of c rt p dataRef e] by simp_all
  from Cons.IH [of "stepS rt p dataRef e c"] a b show ?case
    by (auto simp: less_le_trans order_trans)
qed

section \<open>Claims\<close>



text \<open>
  Claim C2. For a sortable column that is not the active one (as in the cleared state),
  three clicks on its header give, in order, the column ascending, the column descending,
  and the cleared state; one click on a column that is not active makes it active and
  ascending; a click on a column not marked sortable changes nothing.
\<close>

theorem sort_cycle_three_phase:
  "(sortable col = Some True \<and> column (sortState s) \<noteq> Some (key col) \<longrightarrow>
      sortState (handleSort col s) = \<lparr>column = Some (key col), order = Some Asc\<rparr> \<and>
      sortState (handleSort col (handleSort col s)) =
        \<lparr>column = Some (key col), order = Some Desc\<rparr> \<and>
      sortState (handleSort col (handleSort col (handleSort col s))) =
        \<lparr>column = None, order = None\<rparr>) \<and>
   (sortable col \<noteq> Some True \<longrightarrow> handleSort col s = s)"
  by (simp add: handleSort_def nextSortState_def)

theorem sort_cycle_three_phase_witness:
  "sortable nameCol = Some True \<and> column (sortState initialState) \<noteq> Some (key nameCol) \<and>
   sortState (handleSort nameCol initialState) =
     \<lparr>column = Some ''name'', order = Some Asc\<rparr> \<and>
   sortState (handleSort nameCol (handleSort nameCol initialState)) =
     \<lparr>column = Some ''name'', order = Some Desc\<rparr> \<and>
   sortState (handleSort nameCol (handleSort nameCol (handleSort nameCol initialState))) =
     \<lparr>column = None, order = None\<rparr> \<and>
   sortable roleCol \<noteq> Some True \<and>
   handleSort roleCol (byName Asc {}) = byName Asc {}"
  using sort_cycle_three_phase [of nameCol initialState]
        sort_cycle_three_phase [of roleCol "byName Asc {}"]
  by (simp add: nameCol_def roleCol_def initialState_def)

text \<open>
  Claim C3, as amended. When the callback is supplied, \<open>handleRowSelect\<close> invokes it
  with exactly the rows of the row collection whose key, computed from the row and its
  position in the input collection, is in the updated selection set; the rows are listed
  in input order, whatever the active sort.
\<close>

theorem callback_rows_in_input_order:
  "onRowSelect p \<Longrightarrow>
   snd (handleRowSelect p k selected s) =
     Some (nths (data p)
        {i. getRowKey p (data p ! i) i \<in> selectedRowKeys (fst (handleRowSelect p k selected s))}) \<and>
   selectedRowKeys (fst (handleRowSelect p k selected s)) =
     (if selected then insert k (selectedRowKeys s) else selectedRowKeys s - {k})"
  by (simp add: handleRowSelect_def Let_def selectedRows_nths)

theorem callback_rows_in_input_order_witness:
  "onRowSelect (exProps [rowBob, rowAlice]) \<and>
   snd (handleRowSelect (exProps [rowBob, rowAlice]) (JNum 2) True (byName Asc {JNum 1})) =
     Some (nths (data (exProps [rowBob, rowAlice]))
        {i. getRowKey (exProps [rowBob, rowAlice]) (data (exProps [rowBob, rowAlice]) ! i) i
            \<in> selectedRowKeys (fst (handleRowSelect (exProps [rowBob, rowAlice]) (JNum 2) True
                 (byName Asc {JNum 1})))})"
proof -
  have h: "onRowSelect (exProps [rowBob, rowAlice])"
    by (simp add: exProps_def)
  from h callback_rows_in_input_order [OF h, of "JNum 2" True "byName Asc {JNum 1}"]
  show ?thesis by (intro conjI) (erule conjunct1 | assumption)+
qed

text \<open>
  Claim C3 as stated fails: with the rows sorted by name, the view shows alice before
  bob, and the callback still receives bob before alice.
\<close>

theorem callback_not_in_display_order:
  "sortedData exRuntime (exProps [rowBob, rowAlice]) (sortState (byName Asc {JNum 1}))
     = [rowAlice, rowBob] \<and>
   selectedRowsInDisplayOrder exRuntime (exProps [rowBob, rowAlice])
       (sortState (byName Asc {JNum 1})) {JNum 1, JNum 2}
     = [rowAlice, rowBob] \<and>
   handleRowSelect (exProps [rowBob, rowAlice]) (JNum 2) True (byName Asc {JNum 1})
     = (byName Asc {JNum 1, JNum 2}, Some [rowBob, rowAlice]) \<and>
   snd (handleRowSelect (exProps [rowBob, rowAlice]) (JNum 2) True (byName Asc {JNum 1}))
     \<noteq> Some (selectedRowsInDisplayOrder exRuntime (exProps [rowBob, rowAlice])
                (sortState (byName Asc {JNum 1})) {JNum 1, JNum 2})"
  by (auto simp add: ex_defs model_defs)

text \<open>
  Claim C4, as amended. Selecting a key and then deselecting it leaves the selection set
  without that key: for a key that was not selected before, the whole state is restored;
  a key that was selected before is removed.
\<close>

theorem toggle_on_off_removes_key:
  "selectedRowKeys (fst (handleRowSelect p k False (fst (handleRowSelect p k True s))))
     = selectedRowKeys s - {k} \<and>
   (k \<notin> selectedRowKeys s \<longrightarrow>
      fst (handleRowSelect p k False (fst (handleRowSelect p k True s))) = s)"
  by (simp add: handleRowSelect_def Let_def)

theorem toggle_on_off_removes_key_witness:
  "JNum 2 \<notin> selectedRowKeys (byName Asc {JNum 1}) \<and>
   fst (handleRowSelect (exProps [rowBob, rowAlice]) (JNum 2) False
     (fst (handleRowSelect (exProps [rowBob, rowAlice]) (JNum 2) True (byName Asc {JNum 1}))))
     = byName Asc {JNum 1}"
  using toggle_on_off_removes_key [of "exProps [rowBob, rowAlice]" "JNum 2" "byName Asc {JNum 1}"]
  by (simp add: byName_def)

text \<open>
  Claim C4 as stated fails for a key that is already selected: the round trip removes it.
\<close>

theorem toggle_round_trip_loses_selected_key:
  "selectedRowKeys (fst (handleRowSelect (exProps [rowBob, rowAlice]) (JNum 1) False
      (fst (handleRowSelect (exProps [rowBob, rowAlice]) (JNum 1) True (byName Asc {JNum 1})))))
   \<noteq> selectedRowKeys (byName Asc {JNum 1})"
  by (simp add: ex_defs model_defs)

text \<open>
  Claim C5, as amended. \<open>handleSelectAll\<close> with true makes the selection set the set
  of all row keys, and \<open>isAllSelected\<close> then holds exactly when the row collection is
  not empty and its row keys are pairwise distinct; \<open>handleSelectAll\<close> with false then
  empties the selection set, and neither \<open>isAllSelected\<close> nor \<open>isIndeterminate\<close> holds.
\<close>

theorem select_all_then_clear:
  "selectedRowKeys (fst (handleSelectAll p True s)) = set (rowKeys p) \<and>
   (isAllSelected p (fst (handleSelectAll p True s)) \<longleftrightarrow>
      data p \<noteq> [] \<and> distinct (rowKeys p)) \<and>
   selectedRowKeys (fst (handleSelectAll p False (fst (handleSelectAll p True s)))) = {} \<and>
   \<not> isAllSelected p (fst (handleSelectAll p False (fst (handleSelectAll p True s)))) \<and>
   \<not> isIndeterminate p (fst (handleSelectAll p False (fst (handleSelectAll p True s))))"
proof -
  have len: "length (rowKeys p) = length (data p)"
    by (simp add: rowKeys_def)
  have "card (set (rowKeys p)) = length (data p) \<longleftrightarrow> distinct (rowKeys p)"
    using card_distinct [of "rowKeys p"] distinct_card [of "rowKeys p"] len by auto
  then show ?thesis
    by (auto simp: handleSelectAll_def isAllSelected_def isIndeterminate_def allKeys_def
        rowKeys_def)
qed

theorem select_all_then_clear_witness:
  "data (exProps [rowBob, rowAlice]) \<noteq> [] \<and> distinct (rowKeys (exProps [rowBob, rowAlice])) \<and>
   isAllSelected (exProps [rowBob, rowAlice])
     (fst (handleSelectAll (exProps [rowBob, rowAlice]) True initialState)) \<and>
   selectedRowKeys (fst (handleSelectAll (exProps [rowBob, rowAlice]) True initialState))
     = {JNum 1, JNum 2}"
proof -
  have d: "data (exProps [rowBob, rowAlice]) \<noteq> []"
    by (simp add: exProps_def)
  have k: "rowKeys (exProps [rowBob, rowAlice]) = [JNum 1, JNum 2]"
    by (simp add: ex_defs model_defs)
  from k have u: "distinct (rowKeys (exProps [rowBob, rowAlice]))"
    by simp
  from d u k select_all_then_clear [of "exProps [rowBob, rowAlice]" initialState]
  show ?thesis by auto
qed

text \<open>
  Claim C5 as stated fails for a row collection in which two rows have the same key: the
  selection set then has fewer keys than there are rows.
\<close>

theorem select_all_with_duplicate_keys:
  "data (exProps [dupRow, dupRow]) \<noteq> [] \<and>
   selectedRowKeys (fst (handleSelectAll (exProps [dupRow, dupRow]) True initialState))
     = {JNum 1} \<and>
   \<not> isAllSelected (exProps [dupRow, dupRow])
       (fst (handleSelectAll (exProps [dupRow, dupRow]) True initialState))"
  by (simp add: ex_defs model_defs initialState_def)

text \<open>
  Claim C6. A row without a key field should be identified by its index in the input
  collection wherever a key is computed. The rows bob and alice have no \<open>id\<close>, so
  their key is the index the caller of \<open>getRowKey\<close> passes. In the input alice is at
  index 1, which is her key in \<open>handleSelectAll\<close> and in the filter of
  \<open>handleRowSelect\<close>. Sorted by name she is displayed first and rendered with key 0,
  her index in the sorted view; her checkbox selects key 0, and the callback receives bob.
\<close>

theorem index_fallback_differs_in_sorted_view:
  "data (exProps [anonBob, anonAlice]) = [anonBob, anonAlice] \<and>
   rowKeys (exProps [anonBob, anonAlice]) = [JNum 0, JNum 1] \<and>
   sortedData exRuntime (exProps [anonBob, anonAlice]) (sortState (byName Asc {}))
     = [anonAlice, anonBob] \<and>
   renderedKeys exRuntime (exProps [anonBob, anonAlice]) (byName Asc {}) = [JNum 0, JNum 1] \<and>
   rowCheckboxChange exRuntime (exProps [anonBob, anonAlice]) 0 True (byName Asc {})
     = (byName Asc {JNum 0}, Some [anonBob])"
  by (simp add: ex_defs model_defs)

text \<open>
  Claim C7. \<open>handleSort\<close> leaves the selection set as it is, and \<open>handleRowSelect\<close>,
  the row checkbox handler and \<open>handleSelectAll\<close> leave the sort state as it is.
\<close>

theorem sort_and_selection_independent:
  "selectedRowKeys (handleSort col s) = selectedRowKeys s \<and>
   sortState (fst (handleRowSelect p k selected s)) = sortState s \<and>
   sortState (fst (rowCheckboxChange rt p index selected s)) = sortState s \<and>
   sortState (fst (handleSelectAll p selected s)) = sortState s"
  by (simp add: handleSort_def handleRowSelect_def handleSelectAll_def rowCheckboxChange_def
      Let_def)

theorem sort_and_selection_independent_witness:
  "selectedRowKeys (handleSort nameCol (byName Asc {JNum 1})) = {JNum 1} \<and>
   sortState (fst (handleRowSelect (exProps [rowBob, rowAlice]) (JNum 2) True
      (byName Asc {JNum 1}))) = \<lparr>column = Some ''name'', order = Some Asc\<rparr>"
  using sort_and_selection_independent [of nameCol "byName Asc {JNum 1}"
      "exProps [rowBob, rowAlice]" "JNum 2" True]
  by (simp add: byName_def)

text \<open>
  Claim C8. With the loading flag set the component returns the grid with the single
  loading row as its body, whether or not there are rows; without it and with no rows it
  returns the empty panel, which shows the empty message and has no header cell, no
  header and no checkbox; otherwise it returns the grid with one body row for each row
  of the sorted view.
\<close>

theorem render_state_cases:
  "(loadingOf p \<longrightarrow>
      DataTable rt p s = grid p s [loadingRow] \<and> tbody (DataTable rt p s) = [[loadingRow]]) \<and>
   (\<not> loadingOf p \<and> data p = [] \<longrightarrow>
      DataTable rt p s = emptyPanel p \<and>
      emptyMessageOf p \<in> set (texts (DataTable rt p s)) \<and>
      (\<forall>m. emptyMessage p = Some m \<longrightarrow> m \<in> set (texts (DataTable rt p s))) \<and>
      ''th'' \<notin> set (tags (DataTable rt p s)) \<and>
      ''thead'' \<notin> set (tags (DataTable rt p s)) \<and>
      checkboxes (DataTable rt p s) = [] \<and>
      tbody (DataTable rt p s) = []) \<and>
   (\<not> loadingOf p \<and> data p \<noteq> [] \<longrightarrow>
      DataTable rt p s =
        grid p s (map (renderRow p s) (enumerate 0 (sortedData rt p (sortState s)))) \<and>
      tbody (DataTable rt p s) =
        [map (renderRow p s) (enumerate 0 (sortedData rt p (sortState s)))])"
  by (auto simp: DataTable_def tbody_grid emptyPanel_observed emptyMessageOf_def)

theorem render_state_cases_witness:
  "\<not> loadingOf (exProps []) \<and> data (exProps []) = [] \<and>
   emptyMessage (exProps []) = Some ''No users'' \<and>
   ''No users'' \<in> set (texts (DataTable exRuntime (exProps []) initialState)) \<and>
   ''th'' \<notin> set (tags (DataTable exRuntime (exProps []) initialState)) \<and>
   checkboxes (DataTable exRuntime (exProps []) initialState) = [] \<and>
   loadingOf ((exProps []) \<lparr>loading := Some True\<rparr>) \<and>
   tbody (DataTable exRuntime ((exProps []) \<lparr>loading := Some True\<rparr>) initialState)
     = [[loadingRow]] \<and>
   \<not> loadingOf (exProps [rowBob]) \<and> data (exProps [rowBob]) \<noteq> [] \<and>
   tbody (DataTable exRuntime (exProps [rowBob]) initialState) =
     [map (renderRow (exProps [rowBob]) initialState)
        (enumerate 0 (sortedData exRuntime (exProps [rowBob]) (sortState initialState)))]"
proof -
  have a: "\<not> loadingOf (exProps []) \<and> data (exProps []) = [] \<and>
           emptyMessage (exProps []) = Some ''No users''"
    by (simp add: exProps_def loadingOf_def)
  have b: "loadingOf ((exProps []) \<lparr>loading := Some True\<rparr>)"
    by (simp add: loadingOf_def)
  have c: "\<not> loadingOf (exProps [rowBob]) \<and> data (exProps [rowBob]) \<noteq> []"
    by (simp add: exProps_def loadingOf_def)
  show ?thesis
    using a b c render_state_cases [of "exProps []" exRuntime initialState]
      render_state_cases [of "(exProps []) \<lparr>loading := Some True\<rparr>" exRuntime initialState]
      render_state_cases [of "exProps [rowBob]" exRuntime initialState]
    by blast
qed

text \<open>
  Claim C9. With the caller's rows in an array of the store, computing the sorted view
  leaves that array as it was and returns an array that holds the sorted view; after any
  sequence of header clicks, selection changes and renders the caller's array still
  holds the same rows in the same order. The column descriptors are only read.
\<close>

theorem caller_rows_never_written:
  assumes "dataRef < nextRef st"
  shows "cells (snd (sortedDataS rt p ss dataRef st)) dataRef = cells st dataRef \<and>
    readArray (fst (sortedDataS rt p ss dataRef st)) (snd (sortedDataS rt p ss dataRef st))
      = sortedData rt (propsAt p dataRef st) ss \<and>
    cells (snd (runS rt p dataRef es (s, st))) dataRef = cells st dataRef \<and>
    readArray dataRef (snd (runS rt p dataRef es (s, st))) = readArray dataRef st"
proof -
  have 1: "cells (snd (sortedDataS rt p ss dataRef st)) dataRef = cells st dataRef"
    using sortedDataS_frame [of st rt p ss dataRef] assms by simp
  have 2: "cells (snd (runS rt p dataRef es (s, st))) dataRef = cells st dataRef"
    using runS_frame [of "(s, st)" rt p dataRef es] assms by simp
  from 1 2 sortedDataS_result [OF assms] show ?thesis
    by (simp add: readArray_def)
qed

theorem caller_rows_never_written_witness:
  "0 < nextRef exStore \<and>
   readArray 0 (snd (runS exRuntime (exProps []) 0
       [ClickHeader nameCol, Render, ChangeRow (JNum 2) True, ChangeAll True, Render]
       (initialState, exStore)))
     = [rowBob, rowNoName, rowAlice]"
proof -
  have h: "0 < nextRef exStore" by (simp add: exStore_def)
  have r: "readArray 0 exStore = [rowBob, rowNoName, rowAlice]"
    by (simp add: readArray_def exStore_def)
  note t = caller_rows_never_written [OF h, of exRuntime "exProps []"
      "sortState (byName Asc {})"
      "[ClickHeader nameCol, Render, ChangeRow (JNum 2) True, ChangeAll True, Render]"
      initialState]
  from h r t show ?thesis by simp
qed

text \<open>
  Claim C10. When no descriptor of the column list carries the active column identifier,
  the sorted view is the row collection in input order, as it is with no active column.
\<close>

theorem unknown_column_keeps_input_order:
  "column ss = Some c \<Longrightarrow> find (\<lambda>col. key col = c) (columns p) = None \<Longrightarrow>
   sortedData rt p ss = data p \<and>
   sortedData rt p ss = sortedData rt p \<lparr>column = None, order = None\<rparr>"
  by (simp add: sortedData_def split: option.splits)

theorem unknown_column_keeps_input_order_witness:
  "column \<lparr>column = Some ''email'', order = Some Desc\<rparr> = Some ''email'' \<and>
   find (\<lambda>col. key col = ''email'') (columns (exProps [rowBob, rowNoName, rowAlice])) = None \<and>
   sortedData exRuntime (exProps [rowBob, rowNoName, rowAlice])
     \<lparr>column = Some ''email'', order = Some Desc\<rparr> = [rowBob, rowNoName, rowAlice]"
proof -
  have c: "column \<lparr>column = Some ''email'', order = Some Desc\<rparr> = Some ''email''"
    by simp
  have f: "find (\<lambda>col. key col = ''email'') (columns (exProps [rowBob, rowNoName, rowAlice]))
      = None"
    by (simp add: exProps_def nameCol_def roleCol_def)
  from c f unknown_column_keeps_input_order [OF c f, of exRuntime]
  show ?thesis by (simp add: exProps_def)
qed

end
